theory Spec2Isabelle
  imports Complex_Main "HOL-Library.Sublist" "HOL-Library.AList"
begin

section \<open>Values of the JavaScript runtime\<close>

text \<open>
  \<^verbatim>\<open>src/index.ts\<close> passes values of type \<^verbatim>\<open>any\<close> between the request, the schema and the
  handler, and throws values of any kind (\<^verbatim>\<open>throw json(...)\<close> throws a \<^verbatim>\<open>Response\<close>).
  One datatype holds them all. A \<^verbatim>\<open>File\<close> is what the schemas read of it: its name, its
  declared MIME type and its size in bytes.
\<close>

record jsfile =
  file_name :: string
  file_type :: string
  file_size :: nat

text \<open>
  \<^item> \<open>JObj own proto\<close> is a plain object: its own properties in insertion order, and
    \<open>None\<close> while its prototype is \<^verbatim>\<open>Object.prototype\<close>, \<open>Some xs\<close> once the prototype
    has been replaced by the array \<open>xs\<close>.
  \<^item> \<open>JBuiltin n\<close> is the built-in function named \<open>n\<close> (\<^verbatim>\<open>Object.prototype.toString\<close>, ...).
  \<^item> \<open>JObjectPrototype\<close> is the object \<^verbatim>\<open>Object.prototype\<close> itself.
  \<^item> \<open>JSearchParams ps\<close> is a \<^verbatim>\<open>URLSearchParams\<close> instance holding the pairs \<open>ps\<close>.
  \<^item> \<open>JResponse data status statusText\<close> is the \<^verbatim>\<open>Response\<close> that \<^verbatim>\<open>json(data, init)\<close> builds.
  \<^item> \<open>JError name message\<close> is an \<^verbatim>\<open>Error\<close> (or \<^verbatim>\<open>TypeError\<close>, \<^verbatim>\<open>DOMException\<close>, ...).
  \<^item> \<open>JZodError issues\<close> is the error a schema rejects with.
  \<^item> \<open>JPromise (Inr v)\<close> is a promise that fulfils with \<open>v\<close>, \<open>JPromise (Inl e)\<close> one
    that rejects with \<open>e\<close>.
\<close>

datatype jsval =
    JUndefined
  | JNull
  | JBool bool
  | JNum real
  | JStr string
  | JFile jsfile
  | JArr "jsval list"
  | JObj "(string \<times> jsval) list" "jsval list option"
  | JSearchParams "(string \<times> string) list"
  | JBuiltin string
  | JObjectPrototype
  | JResponse jsval nat string
  | JError string string
  | JZodError "string list"
  | JPromise "jsval + jsval"

text \<open>
  An \<^verbatim>\<open>async\<close> function that has run to its end either rejected with a thrown value
  (\<open>Inl\<close>) or fulfilled with a result (\<open>Inr\<close>).
\<close>

type_synonym 'a promise = "jsval + 'a"

section \<open>The bad-request signal\<close>

text \<open>
  The module-level bindings \<^verbatim>\<open>badRequestMessage\<close>, \<^verbatim>\<open>customBadRequestJson\<close> and \<^verbatim>\<open>debug\<close>
  are read when a validation fails; the functions below take them as a record.
\<close>

record config =
  badRequestMessage :: string
  customBadRequestJson :: "string \<Rightarrow> jsval"
  debug :: bool

definition initial_config :: config where
  "initial_config =
     \<lparr>badRequestMessage = ''Bad Request'', customBadRequestJson = (\<lambda>message. JStr message),
      debug = False\<rparr>"

text \<open>
  \<^verbatim>\<open>json(data, {status, statusText})\<close> of the framework builds the response; the model keeps
  the data it was given, before serialisation.
\<close>

definition json :: "jsval \<Rightarrow> nat \<Rightarrow> string \<Rightarrow> jsval" where
  "json data status statusText = JResponse data status statusText"

definition throwBadRequest :: "config \<Rightarrow> 'a promise" where
  "throwBadRequest cfg =
     Inl (json (customBadRequestJson cfg (badRequestMessage cfg)) 400 (badRequestMessage cfg))"

section \<open>Schemas\<close>

text \<open>
  A schema is the validation library's object; the module only calls its \<^verbatim>\<open>parseAsync\<close> and
  \<^verbatim>\<open>safeParseAsync\<close>. On an input a schema accepts it (with the coerced output), rejects
  it (with issues), or one of the callbacks it was built from throws: the library does not
  catch what a \<^verbatim>\<open>preprocess\<close>, \<^verbatim>\<open>refine\<close> or \<^verbatim>\<open>custom\<close> callback throws, so both entry points
  then reject with the thrown value.
\<close>

datatype zod_outcome = Valid jsval | Invalid "string list" | Throws jsval

type_synonym schema = "jsval \<Rightarrow> zod_outcome"

datatype safe_result = Success jsval | Failure "string list"

text \<open>
  A promise that is resolved with another promise takes over that promise's outcome; this
  is what \<^verbatim>\<open>return\<close> in an \<^verbatim>\<open>async\<close> function and the callback of \<^verbatim>\<open>then\<close> do with their
  value.
\<close>

fun resolve :: "jsval \<Rightarrow> jsval promise" where
  "resolve (JPromise (Inl e)) = Inl e"
| "resolve (JPromise (Inr v)) = resolve v"
| "resolve v = Inr v"

definition parseAsync :: "schema \<Rightarrow> jsval \<Rightarrow> jsval promise" where
  "parseAsync schema v =
     (case schema v of Valid d \<Rightarrow> resolve d | Invalid e \<Rightarrow> Inl (JZodError e)
      | Throws t \<Rightarrow> Inl t)"

definition safeParseAsync :: "schema \<Rightarrow> jsval \<Rightarrow> safe_result promise" where
  "safeParseAsync schema v =
     (case schema v of Valid d \<Rightarrow> Inr (Success d) | Invalid e \<Rightarrow> Inr (Failure e)
      | Throws t \<Rightarrow> Inl t)"

text \<open>\<^verbatim>\<open>zod.unknown()\<close>, the default of the binders, accepts every value as it is.\<close>

definition zod_unknown :: schema where
  "zod_unknown v = Valid v"

text \<open>
  \<^verbatim>\<open>parseOrThrow\<close>: whatever \<^verbatim>\<open>parseAsync\<close> rejects with is caught and replaced by the
  bad-request response. With \<^verbatim>\<open>debug\<close> set the caught error goes to \<^verbatim>\<open>console.error\<close>
  first; \<open>parseOrThrow_console\<close> is what is written there.
\<close>

definition parseOrThrow :: "config \<Rightarrow> schema \<Rightarrow> jsval \<Rightarrow> jsval promise" where
  "parseOrThrow cfg schema v =
     (case parseAsync schema v of Inr d \<Rightarrow> Inr d | Inl error \<Rightarrow> throwBadRequest cfg)"

definition parseOrThrow_console :: "config \<Rightarrow> schema \<Rightarrow> jsval \<Rightarrow> jsval list" where
  "parseOrThrow_console cfg schema v =
     (case parseAsync schema v of Inr d \<Rightarrow> [] | Inl error \<Rightarrow> if debug cfg then [error] else [])"

text \<open>
  The with-default shape: \<^verbatim>\<open>.then(result => result.success ? result.data : defaultValue)\<close>
  on the promise of \<^verbatim>\<open>safeParseAsync\<close>.
\<close>

definition orDefault :: "safe_result promise \<Rightarrow> jsval \<Rightarrow> jsval promise" where
  "orDefault p defaultValue =
     (case p of Inl e \<Rightarrow> Inl e | Inr (Success d) \<Rightarrow> resolve d
      | Inr (Failure e) \<Rightarrow> resolve defaultValue)"

section \<open>Byte sizes\<close>

text \<open>
  A \<^verbatim>\<open>number\<close> is a real here. The products below multiply by powers of two, which is exact
  on doubles up to overflow. The unit is the string the caller passed; the \<^verbatim>\<open>switch\<close> has a
  \<^verbatim>\<open>default\<close> branch for any other string.
\<close>

record fileSize =
  size_value :: real
  size_unit :: string

definition convertToBytes :: "fileSize \<Rightarrow> real promise" where
  "convertToBytes fileSize =
     (let v = size_value fileSize; u = size_unit fileSize in
      if u = ''B'' then Inr v
      else if u = ''KB'' then Inr (v * 1024)
      else if u = ''MB'' then Inr (v * 1024 * 1024)
      else if u = ''GB'' then Inr (v * 1024 * 1024 * 1024)
      else if u = ''TB'' then Inr (v * 1024 * 1024 * 1024 * 1024)
      else Inl (JError ''Error'' ''Invalid file size unit.''))"

section \<open>Requests\<close>

text \<open>
  A \<^verbatim>\<open>Headers\<close> object is the list of (name, value) pairs it iterates, names in lower case.
  \<^verbatim>\<open>headers.get(name)\<close> is \<^verbatim>\<open>null\<close> (\<open>None\<close>) when no pair has the name.
\<close>

type_synonym headers = "(string \<times> string) list"

definition headers_get :: "headers \<Rightarrow> string \<Rightarrow> string option" where
  "headers_get hs name = map_of hs name"

text \<open>A form value is a string or a \<^verbatim>\<open>File\<close>.\<close>

datatype form_value = FormString string | FormFile jsfile

text \<open>
  Of a \<^verbatim>\<open>Request\<close> the module reads the headers, the query pairs of its URL
  (\<^verbatim>\<open>new URL(request.url).searchParams\<close>), and the body through \<^verbatim>\<open>request.json()\<close> or
  \<^verbatim>\<open>request.formData()\<close>, each of which may reject.
\<close>

record request =
  headers :: headers
  searchParams :: "(string \<times> string) list"
  body_json :: "jsval promise"
  body_formData :: "(string \<times> form_value) list promise"

subsection \<open>Body encoding\<close>

text \<open>\<^verbatim>\<open>String.prototype.includes\<close>: some suffix of the string starts with the pattern.\<close>

fun js_includes :: "string \<Rightarrow> string \<Rightarrow> bool" where
  "js_includes [] pat = (pat = [])"
| "js_includes (c # cs) pat = (prefix pat (c # cs) \<or> js_includes cs pat)"

definition getBodyEncoding :: "request \<Rightarrow> string" where
  "getBodyEncoding request =
     (let contentType = headers_get (headers request) ''content-type'' in
      if (case contentType of None \<Rightarrow> False | Some ct \<Rightarrow> js_includes ct ''application/json'')
      then ''json''
      else if (case contentType of None \<Rightarrow> False | Some ct \<Rightarrow> js_includes ct ''multipart/form-data'')
      then ''form''
      else ''text'')"

section \<open>Multi-value folding\<close>

text \<open>
  \<^verbatim>\<open>formToObject\<close>, \<^verbatim>\<open>searchParamsToObject\<close> and \<^verbatim>\<open>headersToObject\<close> have the same body: they
  start from the object literal \<^verbatim>\<open>{}\<close> and visit the pairs in order. The literal is an
  ordinary object, so \<^verbatim>\<open>data[key]\<close> also finds what \<^verbatim>\<open>Object.prototype\<close> provides: the
  built-in methods below, and the accessor \<^verbatim>\<open>__proto__\<close>, whose getter returns the prototype
  of \<^verbatim>\<open>data\<close> and whose setter replaces it.
\<close>

definition object_prototype_names :: "string list" where
  "object_prototype_names =
     [''constructor'', ''hasOwnProperty'', ''isPrototypeOf'', ''propertyIsEnumerable'',
      ''toLocaleString'', ''toString'', ''valueOf'', ''__defineGetter__'', ''__defineSetter__'',
      ''__lookupGetter__'', ''__lookupSetter__'']"

text \<open>
  Once \<^verbatim>\<open>__proto__\<close> has been assigned an array, \<^verbatim>\<open>data\<close> inherits from that array: its
  elements under their indices, its \<^verbatim>\<open>length\<close>, and the methods of \<^verbatim>\<open>Array.prototype\<close>
  (the names of ECMAScript 2023).
\<close>

definition array_prototype_names :: "string list" where
  "array_prototype_names =
     [''at'', ''concat'', ''constructor'', ''copyWithin'', ''entries'', ''every'', ''fill'',
      ''filter'', ''find'', ''findIndex'', ''findLast'', ''findLastIndex'', ''flat'', ''flatMap'',
      ''forEach'', ''includes'', ''indexOf'', ''join'', ''keys'', ''lastIndexOf'', ''map'', ''pop'',
      ''push'', ''reduce'', ''reduceRight'', ''reverse'', ''shift'', ''slice'', ''some'', ''sort'',
      ''splice'', ''toLocaleString'', ''toReversed'', ''toSorted'', ''toSpliced'', ''toString'',
      ''unshift'', ''values'', ''with'']"

fun digits_value :: "nat \<Rightarrow> string \<Rightarrow> nat option" where
  "digits_value acc [] = Some acc"
| "digits_value acc (c # cs) =
     (let d = (of_char c :: nat) in
      if 48 \<le> d \<and> d \<le> 57 then digits_value (acc * 10 + (d - 48)) cs else None)"

text \<open>An array index is a decimal numeral without a leading zero (\<^verbatim>\<open>"0"\<close> itself apart).\<close>

definition array_index :: "string \<Rightarrow> nat option" where
  "array_index key =
     (case key of [] \<Rightarrow> None
      | c # cs \<Rightarrow> if c = CHR ''0'' \<and> cs \<noteq> [] then None else digits_value 0 key)"

definition array_get :: "jsval list \<Rightarrow> string \<Rightarrow> jsval option" where
  "array_get xs key =
     (if key = ''length'' then Some (JNum (real (length xs)))
      else (case array_index key of
              Some i \<Rightarrow> if i < length xs then Some (xs ! i) else None
            | None \<Rightarrow> None))"

text \<open>
  A plain object under construction: its own properties and, if \<^verbatim>\<open>__proto__\<close> was assigned,
  the array that is now its prototype.
\<close>

type_synonym plain_object = "(string \<times> jsval) list \<times> jsval list option"

definition object_prototype_get :: "jsval \<Rightarrow> string \<Rightarrow> jsval" where
  "object_prototype_get proto key =
     (if key = ''__proto__'' then proto
      else if key \<in> set object_prototype_names then JBuiltin (''Object.prototype.'' @ key)
      else JUndefined)"

text \<open>\<^verbatim>\<open>data[key]\<close>: own properties first, then the prototype chain.\<close>

fun get_property :: "plain_object \<Rightarrow> string \<Rightarrow> jsval" where
  "get_property (own, proto) key =
     (case map_of own key of
        Some v \<Rightarrow> v
      | None \<Rightarrow>
          (case proto of
             None \<Rightarrow> object_prototype_get JObjectPrototype key
           | Some xs \<Rightarrow>
               (case array_get xs key of
                  Some v \<Rightarrow> v
                | None \<Rightarrow>
                    if key \<in> set array_prototype_names then JBuiltin (''Array.prototype.'' @ key)
                    else object_prototype_get (JArr xs) key)))"

text \<open>
  \<^verbatim>\<open>data[key] = v\<close>: an own property is overwritten; otherwise the key \<^verbatim>\<open>__proto__\<close> reaches
  the setter, which makes an array the new prototype and ignores a primitive (the fold
  never hands it any other object); any other key becomes a new own property, whatever
  is inherited under it.
\<close>

fun assign :: "plain_object \<Rightarrow> string \<Rightarrow> jsval \<Rightarrow> plain_object" where
  "assign (own, proto) key v =
     (if map_of own key = None \<and> key = ''__proto__''
      then (case v of JArr xs \<Rightarrow> (own, Some xs) | _ \<Rightarrow> (own, proto))
      else (AList.update key v own, proto))"

definition isArray :: "jsval \<Rightarrow> bool" where
  "isArray v = (case v of JArr xs \<Rightarrow> True | _ \<Rightarrow> False)"

text \<open>
  \<^verbatim>\<open>data[key].push(value)\<close>. Arrays are held by value here; the array under \<^verbatim>\<open>data[key]\<close> was
  made by the fold for this key and is reachable from nowhere else, so appending in
  place is the same as storing the longer array.
\<close>

definition push :: "plain_object \<Rightarrow> string \<Rightarrow> jsval \<Rightarrow> plain_object" where
  "push data key v =
     (case get_property data key of JArr xs \<Rightarrow> assign data key (JArr (xs @ [v])) | _ \<Rightarrow> data)"

text \<open>The callback of \<^verbatim>\<open>forEach\<close>, for one pair.\<close>

fun fold_entry :: "plain_object \<Rightarrow> string \<times> jsval \<Rightarrow> plain_object" where
  "fold_entry data (key, v) =
     (if get_property data key \<noteq> JUndefined then
        push (if \<not> isArray (get_property data key)
              then assign data key (JArr [get_property data key]) else data) key v
      else assign data key v)"

definition fold_entries :: "(string \<times> jsval) list \<Rightarrow> jsval" where
  "fold_entries entries = (case foldl fold_entry ([], None) entries of (own, proto) \<Rightarrow> JObj own proto)"

fun form_value_js :: "form_value \<Rightarrow> jsval" where
  "form_value_js (FormString s) = JStr s"
| "form_value_js (FormFile f) = JFile f"

definition formToObject :: "(string \<times> form_value) list \<Rightarrow> jsval" where
  "formToObject form = fold_entries (map (\<lambda>(key, v). (key, form_value_js v)) form)"

definition searchParamsToObject :: "(string \<times> string) list \<Rightarrow> jsval" where
  "searchParamsToObject search = fold_entries (map (\<lambda>(key, v). (key, JStr v)) search)"

definition headersToObject :: "headers \<Rightarrow> jsval" where
  "headersToObject hs = fold_entries (map (\<lambda>(key, v). (key, JStr v)) hs)"

section \<open>Per-source parsers\<close>

definition parseJson :: "config \<Rightarrow> request \<Rightarrow> schema \<Rightarrow> jsval promise" where
  "parseJson cfg req schema =
     (case body_json req of Inl e \<Rightarrow> Inl e | Inr body \<Rightarrow> parseOrThrow cfg schema body)"

definition parseJsonSafe :: "request \<Rightarrow> schema \<Rightarrow> safe_result promise" where
  "parseJsonSafe req schema =
     (case body_json req of Inl e \<Rightarrow> Inl e | Inr body \<Rightarrow> safeParseAsync schema body)"

definition parseJsonWithDefault :: "request \<Rightarrow> schema \<Rightarrow> jsval \<Rightarrow> jsval promise" where
  "parseJsonWithDefault req schema defaultValue =
     (case body_json req of Inl e \<Rightarrow> Inl e
      | Inr body \<Rightarrow> orDefault (safeParseAsync schema body) defaultValue)"

definition parseForm :: "config \<Rightarrow> request \<Rightarrow> schema \<Rightarrow> jsval promise" where
  "parseForm cfg req schema =
     (case body_formData req of Inl e \<Rightarrow> Inl e
      | Inr body \<Rightarrow> parseOrThrow cfg schema (formToObject body))"

definition parseFormSafe :: "request \<Rightarrow> schema \<Rightarrow> safe_result promise" where
  "parseFormSafe req schema =
     (case body_formData req of Inl e \<Rightarrow> Inl e
      | Inr body \<Rightarrow> safeParseAsync schema (formToObject body))"

definition parseFormWithDefault :: "request \<Rightarrow> schema \<Rightarrow> jsval \<Rightarrow> jsval promise" where
  "parseFormWithDefault req schema defaultValue =
     (case body_formData req of Inl e \<Rightarrow> Inl e
      | Inr body \<Rightarrow> orDefault (safeParseAsync schema (formToObject body)) defaultValue)"

definition parseBody :: "config \<Rightarrow> request \<Rightarrow> schema \<Rightarrow> jsval promise" where
  "parseBody cfg req schema =
     (let encoding = getBodyEncoding req in
      if encoding = ''json'' then parseJson cfg req schema
      else if encoding = ''form'' then parseForm cfg req schema
      else throwBadRequest cfg)"

definition parseBodySafe :: "config \<Rightarrow> request \<Rightarrow> schema \<Rightarrow> safe_result promise" where
  "parseBodySafe cfg req schema =
     (let encoding = getBodyEncoding req in
      if encoding = ''json'' then parseJsonSafe req schema
      else if encoding = ''form'' then parseFormSafe req schema
      else throwBadRequest cfg)"

definition parseBodyWithDefault :: "config \<Rightarrow> request \<Rightarrow> schema \<Rightarrow> jsval \<Rightarrow> jsval promise" where
  "parseBodyWithDefault cfg req schema defaultValue =
     (let encoding = getBodyEncoding req in
      if encoding = ''json'' then parseJsonWithDefault req schema defaultValue
      else if encoding = ''form'' then parseFormWithDefault req schema defaultValue
      else throwBadRequest cfg)"


definition parseParamsSafe :: "jsval \<Rightarrow> schema \<Rightarrow> safe_result promise" where
  "parseParamsSafe ps schema = safeParseAsync schema ps"

definition parseParamsWithDefault :: "jsval \<Rightarrow> schema \<Rightarrow> jsval \<Rightarrow> jsval promise" where
  "parseParamsWithDefault ps schema defaultValue = orDefault (safeParseAsync schema ps) defaultValue"

text \<open>The first argument of the query parsers is a \<^verbatim>\<open>Request\<close> or a \<^verbatim>\<open>URLSearchParams\<close>.\<close>

datatype query_source = QueryRequest request | QuerySearchParams "(string \<times> string) list"

definition parseQuery :: "config \<Rightarrow> query_source \<Rightarrow> schema \<Rightarrow> jsval promise" where
  "parseQuery cfg src schema =
     (case src of
        QuerySearchParams sp \<Rightarrow> parseOrThrow cfg schema (JSearchParams sp)
      | QueryRequest req \<Rightarrow> parseOrThrow cfg schema (searchParamsToObject (searchParams req)))"

definition parseQuerySafe :: "query_source \<Rightarrow> schema \<Rightarrow> safe_result promise" where
  "parseQuerySafe src schema =
     (case src of
        QuerySearchParams sp \<Rightarrow> safeParseAsync schema (JSearchParams sp)
      | QueryRequest req \<Rightarrow> safeParseAsync schema (searchParamsToObject (searchParams req)))"

definition parseQueryWithDefault :: "query_source \<Rightarrow> schema \<Rightarrow> jsval \<Rightarrow> jsval promise" where
  "parseQueryWithDefault src schema defaultValue =
     (case src of
        QuerySearchParams sp \<Rightarrow> orDefault (safeParseAsync schema (JSearchParams sp)) defaultValue
      | QueryRequest req \<Rightarrow>
          orDefault (safeParseAsync schema (searchParamsToObject (searchParams req))) defaultValue)"


definition parseHeadersSafe :: "headers \<Rightarrow> schema \<Rightarrow> safe_result promise" where
  "parseHeadersSafe hs schema = safeParseAsync schema (headersToObject hs)"

definition parseHeadersWithDefault :: "headers \<Rightarrow> schema \<Rightarrow> jsval \<Rightarrow> jsval promise" where
  "parseHeadersWithDefault hs schema defaultValue =
     orDefault (safeParseAsync schema (headersToObject hs)) defaultValue"

section \<open>Action binder\<close>

text \<open>
  The framework calls the wrapped function with \<^verbatim>\<open>{request, params, context}\<close>; the handler
  receives these and the two validated values. A handler is a function to a promise; the
  binder also returns the list of argument objects the handler was called with, so that
  a handler that was not called can be told from one that was.
\<close>

record action_args =
  request :: request
  params :: jsval
  ctx :: jsval




section \<open>Cookie binder\<close>

text \<open>
  \<^verbatim>\<open>createZodCookie(cookie, schema)\<close> returns \<^verbatim>\<open>Object.assign(cookie, {parse, ...})\<close>:
  \<^verbatim>\<open>Object.assign\<close> writes the new functions into the object it was given and returns that
  same object. The name \<^verbatim>\<open>cookie\<close> inside the new functions denotes this object, so what
  \<^verbatim>\<open>cookie.parse(...)\<close> calls there is whatever the property \<^verbatim>\<open>parse\<close> holds at the time of
  the call. The cookie object is therefore modelled with the function its property holds:
  the framework's own decoder, or the function installed for a schema.
\<close>

datatype cookie_input =
    CookieString string
  | CookieNull
  | CookieRequest request
  | CookieHeaders headers

datatype parse_function = NativeParse "cookie_input \<Rightarrow> jsval" | ZodParse schema

record cookie =
  parse :: parse_function

definition createZodCookie :: "cookie \<Rightarrow> schema \<Rightarrow> cookie" where
  "createZodCookie cookie schema = cookie\<lparr>parse := ZodParse schema\<rparr>"

text \<open>\<^verbatim>\<open>!headers\<close> holds of \<^verbatim>\<open>null\<close> and of the empty string.\<close>

definition falsy :: "string option \<Rightarrow> bool" where
  "falsy h = (case h of None \<Rightarrow> True | Some s \<Rightarrow> s = [])"

text \<open>
  \<open>call_parse n cookie x\<close> is the call \<^verbatim>\<open>cookie.parse(x)\<close> with room for \<open>n\<close> more frames
  on the call stack: it throws (\<open>Inl\<close>) when the stack is exhausted and returns a value
  (\<open>Inr\<close>) otherwise. The installed function is \<^verbatim>\<open>async\<close>: it returns a promise, settled
  as its body ends. Inside the body \<^verbatim>\<open>cookie.parse(headers)\<close> is such a call again, and
  its result goes to \<^verbatim>\<open>schema.parseAsync\<close> as it is returned.
\<close>

fun call_parse :: "nat \<Rightarrow> cookie \<Rightarrow> cookie_input \<Rightarrow> jsval + jsval" where
  "call_parse 0 cookie x = Inl (JError ''RangeError'' ''Maximum call stack size exceeded'')"
| "call_parse (Suc n) cookie x =
     (case parse cookie of
        NativeParse decode \<Rightarrow> Inr (decode x)
      | ZodParse schema \<Rightarrow>
          Inr (JPromise
            (case x of
               CookieRequest req \<Rightarrow>
                 (let hs = headers_get (headers req) ''cookie'' in
                  if falsy hs then parseAsync schema (JObj [] None)
                  else (case call_parse n cookie (CookieString (the hs)) of
                          Inl e \<Rightarrow> Inl e | Inr v \<Rightarrow> parseAsync schema v))
             | CookieHeaders h \<Rightarrow>
                 (let hs = headers_get h ''cookie'' in
                  if falsy hs then parseAsync schema (JObj [] None)
                  else (case call_parse n cookie (CookieString (the hs)) of
                          Inl e \<Rightarrow> Inl e | Inr v \<Rightarrow> parseAsync schema v))
             | CookieNull \<Rightarrow> parseAsync schema (JObj [] None)
             | CookieString s \<Rightarrow>
                 if falsy (Some s) then parseAsync schema (JObj [] None)
                 else (case call_parse n cookie (CookieString s) of
                         Inl e \<Rightarrow> Inl e | Inr v \<Rightarrow> parseAsync schema v))))"

text \<open>\<^verbatim>\<open>await cookie.parse(x)\<close>, as a caller of the wrapped cookie writes it.\<close>

definition await_parse :: "nat \<Rightarrow> cookie \<Rightarrow> cookie_input \<Rightarrow> jsval promise" where
  "await_parse n cookie x = (case call_parse n cookie x of Inl e \<Rightarrow> Inl e | Inr v \<Rightarrow> resolve v)"

text \<open>
  A schema for the examples: \<^verbatim>\<open>zod.object({}).passthrough()\<close> accepts every plain object
  as it is and rejects any other value, a promise included.
\<close>

definition zod_object_passthrough :: schema where
  "zod_object_passthrough v =
     (case v of JObj own proto \<Rightarrow> Valid v | _ \<Rightarrow> Invalid [''Expected object''])"

section \<open>File schemas\<close>

datatype mimetype = MimeString string | MimeList "string list"

record file_constraints =
  minimumSize :: "fileSize option"
  maximumSize :: "fileSize option"
  mimetype :: "mimetype option"

text \<open>
  \<^verbatim>\<open>if (mimetype) {...}\<close>: the test is passed by \<^verbatim>\<open>undefined\<close> and by the empty string, which
  are falsy; an array is truthy even when empty.
\<close>

definition mimetype_rejects :: "mimetype option \<Rightarrow> string \<Rightarrow> bool" where
  "mimetype_rejects m t =
     (case m of
        None \<Rightarrow> False
      | Some (MimeList l) \<Rightarrow> t \<notin> set l
      | Some (MimeString s) \<Rightarrow> if s = [] then False else t \<noteq> s)"

definition below_minimum :: "fileSize option \<Rightarrow> nat \<Rightarrow> bool promise" where
  "below_minimum m n =
     (case m of
        None \<Rightarrow> Inr False
      | Some fs \<Rightarrow> (case convertToBytes fs of Inl e \<Rightarrow> Inl e | Inr b \<Rightarrow> Inr (real n < b)))"

definition above_maximum :: "fileSize option \<Rightarrow> nat \<Rightarrow> bool promise" where
  "above_maximum m n =
     (case m of
        None \<Rightarrow> Inr False
      | Some fs \<Rightarrow> (case convertToBytes fs of Inl e \<Rightarrow> Inl e | Inr b \<Rightarrow> Inr (b < real n)))"

text \<open>The callback given to \<^verbatim>\<open>zod.custom\<close> by \<^verbatim>\<open>zx.file\<close>; \<open>Inl\<close> where \<^verbatim>\<open>convertToBytes\<close> throws.\<close>

definition file_check :: "file_constraints \<Rightarrow> jsval \<Rightarrow> bool promise" where
  "file_check c val =
     (case val of
        JFile f \<Rightarrow>
          if mimetype_rejects (mimetype c) (file_type f) then Inr False
          else (case below_minimum (minimumSize c) (file_size f) of
                  Inl e \<Rightarrow> Inl e
                | Inr True \<Rightarrow> Inr False
                | Inr False \<Rightarrow>
                    (case above_maximum (maximumSize c) (file_size f) of
                       Inl e \<Rightarrow> Inl e
                     | Inr True \<Rightarrow> Inr False
                     | Inr False \<Rightarrow> Inr True))
      | _ \<Rightarrow> Inr False)"

text \<open>
  \<^verbatim>\<open>zod.custom(check)\<close> accepts a value as it is when the check returns true and rejects it
  when the check returns false. \<^verbatim>\<open>zod.preprocess(f, schema)\<close> hands the result of \<open>f\<close> to
  the schema. Neither catches what its callback throws.
\<close>

definition zod_custom :: "(jsval \<Rightarrow> bool promise) \<Rightarrow> schema" where
  "zod_custom check v =
     (case check v of Inl e \<Rightarrow> Throws e | Inr True \<Rightarrow> Valid v
      | Inr False \<Rightarrow> Invalid [''Invalid input''])"

definition zod_preprocess :: "(jsval \<Rightarrow> jsval promise) \<Rightarrow> schema \<Rightarrow> schema" where
  "zod_preprocess f schema v = (case f v of Inl e \<Rightarrow> Throws e | Inr v' \<Rightarrow> schema v')"

definition zx_file :: "file_constraints \<Rightarrow> schema" where
  "zx_file c = zod_custom (file_check c)"

subsection \<open>Base64 payloads\<close>

text \<open>\<^verbatim>\<open>s.split(sep)\<close> for a one-character separator: never an empty list.\<close>

fun js_split :: "char \<Rightarrow> string \<Rightarrow> string list" where
  "js_split sep [] = [[]]"
| "js_split sep (c # cs) =
     (if c = sep then [] # js_split sep cs
      else (case js_split sep cs of [] \<Rightarrow> [[c]] | p # ps \<Rightarrow> (c # p) # ps))"

text \<open>\<^verbatim>\<open>xs[i]\<close>, \<^verbatim>\<open>undefined\<close> (\<open>None\<close>) past the end.\<close>

definition at_index :: "'a list \<Rightarrow> nat \<Rightarrow> 'a option" where
  "at_index xs i = (if i < length xs then Some (xs ! i) else None)"

text \<open>
  \<^verbatim>\<open>atob\<close> decodes by the forgiving-base64 rules: ASCII whitespace is dropped; if the length
  is then a multiple of four, one or two final \<^verbatim>\<open>=\<close> are dropped; a length of one more than
  a multiple of four, or any character outside the alphabet, makes it throw. Of the decoded
  string the caller uses the length only: six bits a character, whole bytes kept.
  \<open>atob_length\<close> is that length, \<open>None\<close> where \<^verbatim>\<open>atob\<close> throws. An argument that is
  \<^verbatim>\<open>undefined\<close> is converted to the string \<^verbatim>\<open>"undefined"\<close> first.
\<close>

definition ascii_whitespace :: "char \<Rightarrow> bool" where
  "ascii_whitespace c = ((of_char c :: nat) \<in> {9, 10, 12, 13, 32})"

definition base64_char :: "char \<Rightarrow> bool" where
  "base64_char c =
     (let n = (of_char c :: nat) in
      (65 \<le> n \<and> n \<le> 90) \<or> (97 \<le> n \<and> n \<le> 122) \<or> (48 \<le> n \<and> n \<le> 57) \<or> n = 43 \<or> n = 47)"

definition strip_padding :: "string \<Rightarrow> string" where
  "strip_padding s =
     (if length s mod 4 = 0 then
        (if 2 \<le> length s \<and> drop (length s - 2) s = ''=='' then take (length s - 2) s
         else if 1 \<le> length s \<and> drop (length s - 1) s = ''='' then take (length s - 1) s
         else s)
      else s)"

definition atob_length :: "string option \<Rightarrow> nat option" where
  "atob_length arg =
     (let s = strip_padding (filter (\<lambda>c. \<not> ascii_whitespace c)
                (case arg of None \<Rightarrow> ''undefined'' | Some a \<Rightarrow> a)) in
      if length s mod 4 = 1 then None
      else if \<not> list_all base64_char s then None
      else Some (length s * 6 div 8))"

definition atob_error :: jsval where
  "atob_error = JError ''InvalidCharacterError'' ''The string to be decoded is not correctly encoded.''"

text \<open>
  The \<^verbatim>\<open>Blob\<close> and \<^verbatim>\<open>File\<close> constructors keep a type of printable ASCII characters only, in
  lower case; any other type becomes the empty string.
\<close>

definition ascii_lower :: "char \<Rightarrow> char" where
  "ascii_lower c =
     (let n = (of_char c :: nat) in if 65 \<le> n \<and> n \<le> 90 then char_of (n + 32) else c)"

definition blob_type :: "string \<Rightarrow> string" where
  "blob_type t =
     (if list_all (\<lambda>c. 32 \<le> (of_char c :: nat) \<and> (of_char c :: nat) \<le> 126) t
      then map ascii_lower t else [])"

text \<open>The refinement of \<^verbatim>\<open>zx.base64\<close>, on a string; it catches what \<^verbatim>\<open>atob\<close> throws.\<close>

definition base64_refine :: "string \<Rightarrow> bool" where
  "base64_refine val =
     (let val' = (if prefix ''data:'' val then at_index (js_split (CHR '','') val) 1 else Some val)
      in case atob_length val' of Some n \<Rightarrow> True | None \<Rightarrow> False)"

definition zx_base64 :: schema where
  "zx_base64 v =
     (case v of
        JStr s \<Rightarrow> if base64_refine s then Valid (JStr s) else Invalid [''Invalid input'']
      | _ \<Rightarrow> Invalid [''Expected string''])"

text \<open>
  The callback given to \<^verbatim>\<open>zod.preprocess\<close> by \<^verbatim>\<open>zx.base64File\<close>. Nothing here catches what
  \<^verbatim>\<open>atob\<close> throws, nor the \<^verbatim>\<open>TypeError\<close> of calling \<^verbatim>\<open>split\<close> on \<^verbatim>\<open>undefined\<close> when the part
  before the comma has no colon.
\<close>

definition base64File_preprocess :: "jsval \<Rightarrow> jsval promise" where
  "base64File_preprocess val =
     (case val of
        JFile f \<Rightarrow> Inr (JFile f)
      | JStr s \<Rightarrow>
          (case atob_length (at_index (js_split (CHR '','') s) 1) of
             None \<Rightarrow> Inl atob_error
           | Some byteLength \<Rightarrow>
               (case at_index (js_split (CHR '':'') (hd (js_split (CHR '','') s))) 1 of
                  None \<Rightarrow>
                    Inl (JError ''TypeError''
                           ''Cannot read properties of undefined (reading 'split')'')
                | Some rest \<Rightarrow>
                    (let mimeString = hd (js_split (CHR '';'') rest);
                         extension = (case at_index (js_split (CHR ''/'') mimeString) 1 of
                                        None \<Rightarrow> ''undefined'' | Some e \<Rightarrow> e)
                     in Inr (JFile \<lparr>file_name = ''file.'' @ extension,
                                     file_type = blob_type mimeString,
                                     file_size = byteLength\<rparr>))))
      | _ \<Rightarrow> Inl (JError ''Error'' ''Value must be a string''))"

definition zx_base64File :: "file_constraints \<Rightarrow> schema" where
  "zx_base64File c = zod_preprocess base64File_preprocess (zx_file c)"

section \<open>Requests and bodies used in the statements\<close>


text \<open>
  A request with a JSON body, and the schema \<^verbatim>\<open>zod.object({name: zod.string()})\<close>, which
  keeps the key \<^verbatim>\<open>name\<close> of an object when its value is a string.
\<close>

definition json_request :: "jsval \<Rightarrow> request" where
  "json_request b =
     \<lparr>headers = [(''content-type'', ''application/json'')], searchParams = [],
      body_json = Inr b,
      body_formData = Inl (JError ''TypeError'' ''Could not parse content as FormData.'')\<rparr>"

definition name_schema :: schema where
  "name_schema v =
     (case v of
        JObj own proto \<Rightarrow>
          (case map_of own ''name'' of
             Some (JStr s) \<Rightarrow> Valid (JObj [(''name'', JStr s)] None)
           | _ \<Rightarrow> Invalid [''name: Expected string''])
      | _ \<Rightarrow> Invalid [''Expected object''])"

text \<open>A request with a plain-text body.\<close>

definition text_request :: request where
  "text_request =
     \<lparr>headers = [(''content-type'', ''text/plain'')], searchParams = [],
      body_json = Inl (JError ''SyntaxError'' ''Unexpected token h in JSON at position 0''),
      body_formData = Inl (JError ''TypeError'' ''Could not parse content as FormData.'')\<rparr>"

text \<open>
  \<^verbatim>\<open>new Request('http://localhost:3000')\<close>, the request of \<^verbatim>\<open>test/error.test.ts\<close>: no headers,
  no query, no body.
\<close>

definition bare_request :: request where
  "bare_request =
     \<lparr>headers = [], searchParams = [],
      body_json = Inl (JError ''SyntaxError'' ''Unexpected end of JSON input''),
      body_formData = Inl (JError ''TypeError'' ''Could not parse content as FormData.'')\<rparr>"

text \<open>The cookie header that \<^verbatim>\<open>parse\<close> extracts from its argument, if there is one.\<close>

definition cookie_header :: "cookie_input \<Rightarrow> string option" where
  "cookie_header x =
     (case x of
        CookieString s \<Rightarrow> Some s
      | CookieNull \<Rightarrow> None
      | CookieRequest req \<Rightarrow> headers_get (headers req) ''cookie''
      | CookieHeaders h \<Rightarrow> headers_get h ''cookie'')"

text \<open>\<^verbatim>\<open>zx.file()\<close> and \<^verbatim>\<open>zx.base64File()\<close> without an argument: no constraint is given.\<close>

definition no_constraints :: file_constraints where
  "no_constraints = \<lparr>minimumSize = None, maximumSize = None, mimetype = None\<rparr>"

text \<open>A cookie decoder for the examples: whatever the header, it returns \<^verbatim>\<open>{a: "b"}\<close>.\<close>

definition sample_decode :: "cookie_input \<Rightarrow> jsval" where
  "sample_decode x = JObj [(''a'', JStr ''b'')] None"

section \<open>Notions used to state the fold's result\<close>

text \<open>
  A key is inherited when the object literal \<^verbatim>\<open>{}\<close> already answers it, through
  \<^verbatim>\<open>Object.prototype\<close>. \<open>values_for key entries\<close> are the values paired with \<open>key\<close>, in
  the order of the entries. \<open>stored own key\<close> is what the own properties hold for \<open>key\<close>,
  read as a sequence; \<open>well_folded own\<close> says that no own property is \<^verbatim>\<open>undefined\<close> and every
  array among them has at least two elements.
\<close>

definition inherited :: "string \<Rightarrow> bool" where
  "inherited key = (key = ''__proto__'' \<or> key \<in> set object_prototype_names)"

definition values_for :: "string \<Rightarrow> (string \<times> 'a) list \<Rightarrow> 'a list" where
  "values_for key entries = map snd (filter (\<lambda>e. fst e = key) entries)"

definition stored :: "(string \<times> jsval) list \<Rightarrow> string \<Rightarrow> jsval list" where
  "stored own key =
     (case map_of own key of None \<Rightarrow> [] | Some v \<Rightarrow> (case v of JArr xs \<Rightarrow> xs | _ \<Rightarrow> [v]))"

definition well_folded :: "(string \<times> jsval) list \<Rightarrow> bool" where
  "well_folded own =
     (\<forall>key v. map_of own key = Some v \<longrightarrow>
        v \<noteq> JUndefined \<and> (case v of JArr xs \<Rightarrow> 2 \<le> length xs | _ \<Rightarrow> True))"

section \<open>Properties\<close>

lemma includes_iff: "js_includes s pat \<longleftrightarrow> (\<exists>pre post. s = pre @ pat @ post)"
proof (induction s)
  case Nil
  then show ?case by auto
next
  case (Cons c cs)
  show ?case
  proof
    assume "js_includes (c # cs) pat"
    then consider "prefix pat (c # cs)" | "js_includes cs pat" by auto
    then show "\<exists>pre post. c # cs = pre @ pat @ post"
    proof cases
      case 1
      then obtain post where "c # cs = pat @ post" by (auto simp: prefix_def)
      then have "c # cs = [] @ pat @ post" by simp
      then show ?thesis by blast
    next
      case 2
      with Cons.IH obtain pre post where "cs = pre @ pat @ post" by blast
      then have "c # cs = (c # pre) @ pat @ post" by simp
      then show ?thesis by blast
    qed
  next
    assume "\<exists>pre post. c # cs = pre @ pat @ post"
    then obtain pre post where eq: "c # cs = pre @ pat @ post" by blast
    show "js_includes (c # cs) pat"
    proof (cases pre)
      case Nil
      with eq have "prefix pat (c # cs)" by (simp add: prefix_def)
      then show ?thesis by simp
    next
      case (Cons p pre')
      with eq have "cs = pre' @ pat @ post" by simp
      with Cons.IH have "js_includes cs pat" by blast
      then show ?thesis by simp
    qed
  qed
qed

subsection \<open>Helper facts\<close>

lemma resolve_plain: "(\<And>s. v \<noteq> JPromise s) \<Longrightarrow> resolve v = Inr v"
  by (cases v) auto

lemma resolve_settled: "resolve d = Inr v \<Longrightarrow> resolve v = Inr v"
  by (induction d rule: resolve.induct) auto

lemma resolve_parseAsync: "resolve (JPromise (parseAsync schema v)) = parseAsync schema v"
proof (cases "parseAsync schema v")
  case (Inl e)
  then show ?thesis by simp
next
  case (Inr d)
  then have "resolve d = Inr d"
    by (auto simp: parseAsync_def split: zod_outcome.splits dest: resolve_settled)
  with Inr show ?thesis by simp
qed



lemma fold_entries_is_object: "\<exists>own proto. fold_entries es = JObj own proto"
  by (simp add: fold_entries_def split: prod.split)

lemma text_request_encoding: "getBodyEncoding text_request = ''text''"
  by (simp add: getBodyEncoding_def text_request_def headers_get_def)



subsection \<open>Unrecognised body encodings\<close>

text \<open>
  C1, as the code has it: for every request classified \<^verbatim>\<open>text\<close>, \<^verbatim>\<open>parseBodySafe\<close> and
  \<^verbatim>\<open>parseBodyWithDefault\<close> raise the bad-request response, exactly as \<^verbatim>\<open>parseBody\<close> does;
  neither a failure-tagged outcome nor the default value is returned.
\<close>

theorem parseBody_text_throws:
  assumes "getBodyEncoding req = ''text''"
  shows "parseBodySafe cfg req schema =
           Inl (JResponse (customBadRequestJson cfg (badRequestMessage cfg)) 400
                  (badRequestMessage cfg))
       \<and> parseBodyWithDefault cfg req schema defaultValue =
           Inl (JResponse (customBadRequestJson cfg (badRequestMessage cfg)) 400
                  (badRequestMessage cfg))
       \<and> parseBody cfg req schema =
           Inl (JResponse (customBadRequestJson cfg (badRequestMessage cfg)) 400
                  (badRequestMessage cfg))"
  using assms
  by (simp add: parseBodySafe_def parseBodyWithDefault_def parseBody_def throwBadRequest_def json_def)

theorem parseBody_text_throws_witness:
  "getBodyEncoding text_request = ''text''
   \<and> parseBodySafe initial_config text_request zod_object_passthrough =
       Inl (JResponse (JStr ''Bad Request'') 400 ''Bad Request'')"
  using parseBody_text_throws [OF text_request_encoding, of initial_config zod_object_passthrough]
  by (simp add: text_request_encoding initial_config_def)

text \<open>
  C1 as stated fails on a plain-text request: the safe shape throws instead of returning
  a failure, and the with-default shape throws instead of returning the default.
\<close>

theorem parseBodySafe_text_counterexample:
  "getBodyEncoding text_request = ''text''
   \<and> parseBodySafe initial_config text_request zod_unknown =
       Inl (JResponse (JStr ''Bad Request'') 400 ''Bad Request'')
   \<and> parseBodyWithDefault initial_config text_request zod_unknown (JStr ''fallback'') =
       Inl (JResponse (JStr ''Bad Request'') 400 ''Bad Request'')"
  by (simp add: text_request_encoding parseBodySafe_def parseBodyWithDefault_def throwBadRequest_def
      json_def initial_config_def)

subsection \<open>The action binder\<close>




subsection \<open>Body encoding\<close>

text \<open>
  C6: the detector answers \<^verbatim>\<open>json\<close> when the content-type header contains
  \<^verbatim>\<open>application/json\<close>, else \<^verbatim>\<open>form\<close> when it contains \<^verbatim>\<open>multipart/form-data\<close>, else
  \<^verbatim>\<open>text\<close>, which is also the answer for an absent header. Containment is as a substring,
  whatever surrounds the token.
\<close>

theorem getBodyEncoding_classifies:
  "getBodyEncoding req =
     (case headers_get (headers req) ''content-type'' of
        None \<Rightarrow> ''text''
      | Some ct \<Rightarrow>
          if (\<exists>pre post. ct = pre @ ''application/json'' @ post) then ''json''
          else if (\<exists>pre post. ct = pre @ ''multipart/form-data'' @ post) then ''form''
          else ''text'')"
  by (simp add: getBodyEncoding_def includes_iff split: option.split)

theorem getBodyEncoding_classifies_witness:
  "getBodyEncoding (json_request JNull) = ''json'' \<and> getBodyEncoding text_request = ''text''
   \<and> getBodyEncoding bare_request = ''text''"
  using getBodyEncoding_classifies [of "json_request JNull", unfolded includes_iff [symmetric]]
    getBodyEncoding_classifies [of text_request, unfolded includes_iff [symmetric]]
    getBodyEncoding_classifies [of bare_request, unfolded includes_iff [symmetric]]
  by (simp add: json_request_def text_request_def bare_request_def headers_get_def)

subsection \<open>Byte sizes\<close>

text \<open>
  C7: for a value \<open>v \<ge> 0\<close>, \<^verbatim>\<open>convertToBytes\<close> returns \<open>v * 1024 ^ k\<close> with \<open>k = 0, 1, 2, 3, 4\<close>
  for B, KB, MB, GB, TB; each unit is 1024 times the one before; the result is monotonic
  in the value; any other unit raises the invalid-unit error.
\<close>

theorem convertToBytes_scaling:
  assumes "0 \<le> v" and "v \<le> w"
  shows "convertToBytes \<lparr>size_value = v, size_unit = ''B''\<rparr> = Inr (v * 1024 ^ 0)
       \<and> convertToBytes \<lparr>size_value = v, size_unit = ''KB''\<rparr> = Inr (v * 1024 ^ 1)
       \<and> convertToBytes \<lparr>size_value = v, size_unit = ''MB''\<rparr> = Inr (v * 1024 ^ 2)
       \<and> convertToBytes \<lparr>size_value = v, size_unit = ''GB''\<rparr> = Inr (v * 1024 ^ 3)
       \<and> convertToBytes \<lparr>size_value = v, size_unit = ''TB''\<rparr> = Inr (v * 1024 ^ 4)
       \<and> (\<forall>b. convertToBytes \<lparr>size_value = v, size_unit = ''B''\<rparr> = Inr b \<longrightarrow>
              convertToBytes \<lparr>size_value = v, size_unit = ''KB''\<rparr> = Inr (1024 * b))
       \<and> (\<forall>b. convertToBytes \<lparr>size_value = v, size_unit = ''KB''\<rparr> = Inr b \<longrightarrow>
              convertToBytes \<lparr>size_value = v, size_unit = ''MB''\<rparr> = Inr (1024 * b))
       \<and> (\<forall>b. convertToBytes \<lparr>size_value = v, size_unit = ''MB''\<rparr> = Inr b \<longrightarrow>
              convertToBytes \<lparr>size_value = v, size_unit = ''GB''\<rparr> = Inr (1024 * b))
       \<and> (\<forall>b. convertToBytes \<lparr>size_value = v, size_unit = ''GB''\<rparr> = Inr b \<longrightarrow>
              convertToBytes \<lparr>size_value = v, size_unit = ''TB''\<rparr> = Inr (1024 * b))
       \<and> (u \<in> {''B'', ''KB'', ''MB'', ''GB'', ''TB''} \<longrightarrow>
            (\<exists>a b. convertToBytes \<lparr>size_value = v, size_unit = u\<rparr> = Inr a
                 \<and> convertToBytes \<lparr>size_value = w, size_unit = u\<rparr> = Inr b \<and> 0 \<le> a \<and> a \<le> b))
       \<and> (u \<notin> {''B'', ''KB'', ''MB'', ''GB'', ''TB''} \<longrightarrow>
            convertToBytes \<lparr>size_value = v, size_unit = u\<rparr> =
              Inl (JError ''Error'' ''Invalid file size unit.''))"
  using assms by (auto simp: convertToBytes_def)

theorem convertToBytes_scaling_witness:
  "(0::real) \<le> 3 \<and> (3::real) \<le> 5
   \<and> convertToBytes \<lparr>size_value = 3, size_unit = ''MB''\<rparr> = Inr (3 * 1024 ^ 2)
   \<and> convertToBytes \<lparr>size_value = 3, size_unit = ''PB''\<rparr> =
       Inl (JError ''Error'' ''Invalid file size unit.'')"
  using convertToBytes_scaling [of 3 5 "''PB''"] by simp

subsection \<open>File constraints\<close>

lemma convertToBytes_valid_unit:
  "size_unit m \<in> {''B'', ''KB'', ''MB'', ''GB'', ''TB''} \<Longrightarrow> \<exists>b. convertToBytes m = Inr b"
  by (auto simp: convertToBytes_def)

text \<open>
  C9, as the code has it: with size units from the enumerated set, \<^verbatim>\<open>zx.file\<close> accepts a
  \<^verbatim>\<open>File\<close> exactly when its declared type equals the constraint string, provided that
  string is not empty, or is a member of the constraint list, and its size lies between
  the minimum and the maximum, both bounds included; an absent constraint, and an empty
  constraint string, impose no limit. A maximum of 1 MB accepts 1048576 bytes and rejects
  1048577.
\<close>

theorem zx_file_accepts_iff:
  assumes umin: "\<forall>m. minimumSize c = Some m \<longrightarrow> size_unit m \<in> {''B'', ''KB'', ''MB'', ''GB'', ''TB''}"
      and umax: "\<forall>m. maximumSize c = Some m \<longrightarrow> size_unit m \<in> {''B'', ''KB'', ''MB'', ''GB'', ''TB''}"
  shows "zx_file c (JFile f) =
           (if (case mimetype c of
                  None \<Rightarrow> True
                | Some (MimeString s) \<Rightarrow> s = [] \<or> file_type f = s
                | Some (MimeList l) \<Rightarrow> file_type f \<in> set l)
               \<and> (\<forall>m lo. minimumSize c = Some m \<and> convertToBytes m = Inr lo \<longrightarrow> lo \<le> real (file_size f))
               \<and> (\<forall>m hi. maximumSize c = Some m \<and> convertToBytes m = Inr hi \<longrightarrow> real (file_size f) \<le> hi)
            then Valid (JFile f) else Invalid [''Invalid input''])
       \<and> (file_size f = 1048576 \<longrightarrow>
            zx_file \<lparr>minimumSize = None, maximumSize = Some \<lparr>size_value = 1, size_unit = ''MB''\<rparr>,
                     mimetype = None\<rparr> (JFile f) = Valid (JFile f))
       \<and> (file_size f = 1048577 \<longrightarrow>
            zx_file \<lparr>minimumSize = None, maximumSize = Some \<lparr>size_value = 1, size_unit = ''MB''\<rparr>,
                     mimetype = None\<rparr> (JFile f) = Invalid [''Invalid input''])
       \<and> (file_size f = 1048576 \<longrightarrow>
            zx_file \<lparr>minimumSize = Some \<lparr>size_value = 1, size_unit = ''MB''\<rparr>, maximumSize = None,
                     mimetype = None\<rparr> (JFile f) = Valid (JFile f))
       \<and> zx_file no_constraints (JFile f) = Valid (JFile f)"
proof -
  have min: "minimumSize c = None \<or> (\<exists>m b. minimumSize c = Some m \<and> convertToBytes m = Inr b)"
    using umin convertToBytes_valid_unit by (cases "minimumSize c") auto
  have max: "maximumSize c = None \<or> (\<exists>m b. maximumSize c = Some m \<and> convertToBytes m = Inr b)"
    using umax convertToBytes_valid_unit by (cases "maximumSize c") auto
  have general: "zx_file c (JFile f) =
           (if (case mimetype c of
                  None \<Rightarrow> True
                | Some (MimeString s) \<Rightarrow> s = [] \<or> file_type f = s
                | Some (MimeList l) \<Rightarrow> file_type f \<in> set l)
               \<and> (\<forall>m lo. minimumSize c = Some m \<and> convertToBytes m = Inr lo \<longrightarrow> lo \<le> real (file_size f))
               \<and> (\<forall>m hi. maximumSize c = Some m \<and> convertToBytes m = Inr hi \<longrightarrow> real (file_size f) \<le> hi)
            then Valid (JFile f) else Invalid [''Invalid input''])"
    using min max
    by (auto simp: zx_file_def zod_custom_def file_check_def mimetype_rejects_def below_minimum_def
        above_maximum_def split: option.splits mimetype.splits bool.splits)
  have bounds: "(file_size f = 1048576 \<longrightarrow>
            zx_file \<lparr>minimumSize = None, maximumSize = Some \<lparr>size_value = 1, size_unit = ''MB''\<rparr>,
                     mimetype = None\<rparr> (JFile f) = Valid (JFile f))
       \<and> (file_size f = 1048577 \<longrightarrow>
            zx_file \<lparr>minimumSize = None, maximumSize = Some \<lparr>size_value = 1, size_unit = ''MB''\<rparr>,
                     mimetype = None\<rparr> (JFile f) = Invalid [''Invalid input''])
       \<and> (file_size f = 1048576 \<longrightarrow>
            zx_file \<lparr>minimumSize = Some \<lparr>size_value = 1, size_unit = ''MB''\<rparr>, maximumSize = None,
                     mimetype = None\<rparr> (JFile f) = Valid (JFile f))
       \<and> zx_file no_constraints (JFile f) = Valid (JFile f)"
    by (simp add: zx_file_def zod_custom_def file_check_def mimetype_rejects_def below_minimum_def
        above_maximum_def convertToBytes_def no_constraints_def)
  from general bounds show ?thesis by blast
qed

theorem zx_file_accepts_iff_witness:
  "zx_file \<lparr>minimumSize = Some \<lparr>size_value = 1, size_unit = ''KB''\<rparr>,
            maximumSize = Some \<lparr>size_value = 1, size_unit = ''MB''\<rparr>,
            mimetype = Some (MimeList [''image/png'', ''image/jpeg''])\<rparr>
     (JFile \<lparr>file_name = ''a.png'', file_type = ''image/png'', file_size = 2048\<rparr>)
   = Valid (JFile \<lparr>file_name = ''a.png'', file_type = ''image/png'', file_size = 2048\<rparr>)
   \<and> zx_file \<lparr>minimumSize = Some \<lparr>size_value = 1, size_unit = ''KB''\<rparr>,
            maximumSize = Some \<lparr>size_value = 1, size_unit = ''MB''\<rparr>,
            mimetype = Some (MimeList [''image/png'', ''image/jpeg''])\<rparr>
     (JFile \<lparr>file_name = ''a.gif'', file_type = ''image/gif'', file_size = 2048\<rparr>)
   = Invalid [''Invalid input'']"
proof -
  let ?c = "\<lparr>minimumSize = Some \<lparr>size_value = 1, size_unit = ''KB''\<rparr>,
            maximumSize = Some \<lparr>size_value = 1, size_unit = ''MB''\<rparr>,
            mimetype = Some (MimeList [''image/png'', ''image/jpeg''])\<rparr>"
  have umin: "\<forall>m. minimumSize ?c = Some m \<longrightarrow> size_unit m \<in> {''B'', ''KB'', ''MB'', ''GB'', ''TB''}"
    by simp
  have umax: "\<forall>m. maximumSize ?c = Some m \<longrightarrow> size_unit m \<in> {''B'', ''KB'', ''MB'', ''GB'', ''TB''}"
    by simp
  show ?thesis
    using zx_file_accepts_iff [OF umin umax,
            of "\<lparr>file_name = ''a.png'', file_type = ''image/png'', file_size = 2048\<rparr>"]
          zx_file_accepts_iff [OF umin umax,
            of "\<lparr>file_name = ''a.gif'', file_type = ''image/gif'', file_size = 2048\<rparr>"]
    by (simp add: convertToBytes_def)
qed

text \<open>
  C9 as stated fails for the constraint string \<^verbatim>\<open>""\<close>: it is given, the declared type
  \<^verbatim>\<open>image/png\<close> differs from it, and the file is accepted, since \<^verbatim>\<open>if (mimetype)\<close> skips
  the empty string.
\<close>

theorem zx_file_empty_mimetype_counterexample:
  "zx_file \<lparr>minimumSize = None, maximumSize = None, mimetype = Some (MimeString [])\<rparr>
     (JFile \<lparr>file_name = ''a.png'', file_type = ''image/png'', file_size = 1\<rparr>)
   = Valid (JFile \<lparr>file_name = ''a.png'', file_type = ''image/png'', file_size = 1\<rparr>)"
  by (simp add: zx_file_def zod_custom_def file_check_def mimetype_rejects_def below_minimum_def
        above_maximum_def)

subsection \<open>Base64 files\<close>

text \<open>
  A string whose part after the first comma \<^verbatim>\<open>atob\<close> cannot decode makes the callback of
  \<^verbatim>\<open>zx.base64File\<close> throw; the safe and with-default shapes then reject with that error,
  and only the throwing shape turns it into the bad-request response.
\<close>

lemma base64File_undecodable_throws:
  assumes "atob_length (at_index (js_split (CHR '','') s) 1) = None"
  shows "safeParseAsync (zx_base64File c) (JStr s) = Inl atob_error"
    and "orDefault (safeParseAsync (zx_base64File c) (JStr s)) d = Inl atob_error"
    and "parseOrThrow cfg (zx_base64File c) (JStr s) = throwBadRequest cfg"
  using assms
  by (simp_all add: safeParseAsync_def orDefault_def parseOrThrow_def parseAsync_def
      zx_base64File_def zod_preprocess_def base64File_preprocess_def)

lemma not_base64_undecodable:
  "atob_length (at_index (js_split (CHR '','') ''not base64!!'') 1) = None"
  by (simp add: at_index_def atob_length_def strip_padding_def ascii_whitespace_def)

text \<open>
  C3 fails for the safe and the with-default shape: on the string \<^verbatim>\<open>not base64!!\<close>,
  \<^verbatim>\<open>parseJsonSafe\<close> and \<^verbatim>\<open>parseJsonWithDefault\<close> with \<^verbatim>\<open>zx.base64File()\<close> reject with the
  error of \<^verbatim>\<open>atob\<close>, where the claim has a failure-tagged result and the default;
  \<^verbatim>\<open>parseJson\<close> raises the bad-request response as claimed. The sibling schema
  \<^verbatim>\<open>zx.base64\<close> catches the same error and rejects the string as a validation failure.
\<close>

theorem base64File_invalid_payload_rejects:
  "parseJsonSafe (json_request (JStr ''not base64!!'')) (zx_base64File no_constraints) = Inl atob_error
   \<and> parseJsonWithDefault (json_request (JStr ''not base64!!'')) (zx_base64File no_constraints)
        (JStr ''fallback'') = Inl atob_error
   \<and> parseJson initial_config (json_request (JStr ''not base64!!'')) (zx_base64File no_constraints)
        = Inl (JResponse (JStr ''Bad Request'') 400 ''Bad Request'')
   \<and> parseJsonSafe (json_request (JStr ''not base64!!'')) zx_base64 = Inr (Failure [''Invalid input''])"
proof -
  have base64: "base64_refine ''not base64!!'' = False"
    by (simp add: base64_refine_def atob_length_def strip_padding_def ascii_whitespace_def
        base64_char_def)
  show ?thesis
    using base64File_undecodable_throws [OF not_base64_undecodable]
    by (simp add: parseJsonSafe_def parseJsonWithDefault_def parseJson_def json_request_def
        throwBadRequest_def json_def initial_config_def safeParseAsync_def zx_base64_def base64)
qed

subsection \<open>The cookie binder\<close>

text \<open>
  After \<^verbatim>\<open>createZodCookie\<close> the property \<^verbatim>\<open>parse\<close> of the cookie holds the installed
  function, whatever decoder it held before; on a non-empty header string that function
  calls \<^verbatim>\<open>cookie.parse\<close>, i.e. itself.
\<close>

lemma createZodCookie_drops_decoder:
  "createZodCookie \<lparr>parse = NativeParse d1\<rparr> schema = createZodCookie \<lparr>parse = NativeParse d2\<rparr> schema"
  by (simp add: createZodCookie_def)

lemma call_parse_wrapped_string:
  "s \<noteq> [] \<Longrightarrow>
   call_parse (Suc n) (createZodCookie cookie schema) (CookieString s) =
     Inr (JPromise (case call_parse n (createZodCookie cookie schema) (CookieString s) of
                      Inl e \<Rightarrow> Inl e | Inr v \<Rightarrow> parseAsync schema v))"
  by (simp add: createZodCookie_def falsy_def)


lemma wrapped_parse_present_header:
  assumes "\<not> falsy (cookie_header x)"
  shows "\<exists>p. await_parse (Suc (Suc (Suc n))) (createZodCookie cookie schema) x = parseAsync schema (JPromise p)"
proof -
  obtain s where s: "cookie_header x = Some s" "s \<noteq> []"
    using assms by (cases "cookie_header x") (auto simp: falsy_def)
  let ?c = "createZodCookie cookie schema"
  have inner: "\<exists>p. call_parse (Suc (Suc n)) ?c (CookieString s) = Inr (JPromise p)"
    by (simp add: createZodCookie_def)
  then obtain p where p: "call_parse (Suc (Suc n)) ?c (CookieString s) = Inr (JPromise p)" by blast
  have "call_parse (Suc (Suc (Suc n))) ?c x = Inr (JPromise (parseAsync schema (JPromise p)))"
    using s p assms
    apply (subst call_parse.simps(2))
    by (cases x) (simp_all add: createZodCookie_def cookie_header_def Let_def del: call_parse.simps)
  then show ?thesis by (auto simp: await_parse_def resolve_parseAsync)
qed

text \<open>
  C2 fails for a present, non-empty header: on the header \<^verbatim>\<open>a=b\<close>, with a decoder that
  returns \<^verbatim>\<open>{a: "b"}\<close> and a schema that accepts it, \<^verbatim>\<open>parse\<close> of the wrapped cookie never
  reaches the decoder. It calls itself until the stack is exhausted, and each caller
  hands the promise it got back to the schema: the outcome is a \<^verbatim>\<open>RangeError\<close> or the
  schema's rejection of a promise, for every depth of the stack, and never the validated
  mapping.
\<close>

theorem zod_cookie_parse_calls_itself:
  "parseAsync zod_object_passthrough (sample_decode (CookieString ''a=b'')) =
     Inr (JObj [(''a'', JStr ''b'')] None)
   \<and> await_parse 0 (createZodCookie \<lparr>parse = NativeParse sample_decode\<rparr> zod_object_passthrough)
        (CookieString ''a=b'') = Inl (JError ''RangeError'' ''Maximum call stack size exceeded'')
   \<and> await_parse 1 (createZodCookie \<lparr>parse = NativeParse sample_decode\<rparr> zod_object_passthrough)
        (CookieString ''a=b'') = Inl (JError ''RangeError'' ''Maximum call stack size exceeded'')
   \<and> await_parse (Suc (Suc n)) (createZodCookie \<lparr>parse = NativeParse sample_decode\<rparr> zod_object_passthrough)
        (CookieString ''a=b'') = Inl (JZodError [''Expected object''])"
proof -
  let ?c = "createZodCookie \<lparr>parse = NativeParse sample_decode\<rparr> zod_object_passthrough"
  have ne: "''a=b'' \<noteq> []" by simp
  have 1: "call_parse (Suc 0) ?c (CookieString ''a=b'')
            = Inr (JPromise (Inl (JError ''RangeError'' ''Maximum call stack size exceeded'')))"
    by (simp add: call_parse_wrapped_string [OF ne] del: call_parse.simps(2))
  have 2: "call_parse (Suc (Suc n)) ?c (CookieString ''a=b'') = Inr (JPromise (Inl (JZodError [''Expected object''])))"
    by (cases n) (simp_all add: call_parse_wrapped_string [OF ne] parseAsync_def
        zod_object_passthrough_def del: call_parse.simps(2))
  show ?thesis
    using 1 2 by (simp add: await_parse_def parseAsync_def zod_object_passthrough_def sample_decode_def)
qed

subsection \<open>The bad-request response\<close>




subsection \<open>Multi-value folding\<close>

text \<open>
  Where no key is inherited, the fold is what the specification says: a key met once maps
  to its value, a key met more often maps to the array of its values in the order of the
  pairs, nothing removed.
\<close>

lemma get_property_own:
  "\<not> inherited key \<Longrightarrow>
   get_property (own, None) key = (case map_of own key of None \<Rightarrow> JUndefined | Some v \<Rightarrow> v)"
  by (simp add: inherited_def object_prototype_get_def split: option.split)

lemma assign_own:
  "\<not> inherited key \<Longrightarrow> assign (own, None) key v = (AList.update key v own, None)"
  by (simp add: inherited_def)

lemma stored_scalar: "\<not> isArray v \<Longrightarrow> map_of own key = Some v \<Longrightarrow> stored own key = [v]"
  by (cases v) (simp_all add: stored_def isArray_def)

lemma stored_update:
  "stored (AList.update key v own) k = (if k = key then (case v of JArr xs \<Rightarrow> xs | _ \<Rightarrow> [v]) else stored own k)"
  by (simp add: stored_def update_conv')

lemma well_folded_update:
  "well_folded own \<Longrightarrow> v \<noteq> JUndefined \<Longrightarrow> (case v of JArr xs \<Rightarrow> 2 \<le> length xs | _ \<Rightarrow> True) \<Longrightarrow>
   well_folded (AList.update key v own)"
  by (simp add: well_folded_def update_conv')

lemma well_foldedD:
  "well_folded own \<Longrightarrow> map_of own key = Some v \<Longrightarrow>
   v \<noteq> JUndefined \<and> (case v of JArr xs \<Rightarrow> 2 \<le> length xs | _ \<Rightarrow> True)"
  unfolding well_folded_def by blast

lemma scalar_case: "\<not> isArray v \<Longrightarrow> (case v of JArr xs \<Rightarrow> xs | _ \<Rightarrow> [v]) = [v]"
  by (cases v) (simp_all add: isArray_def)

lemma fold_entry_step:
  assumes key: "\<not> inherited key" and v: "v \<noteq> JUndefined" "\<not> isArray v" and wf: "well_folded own"
  shows "\<exists>own'. fold_entry (own, None) (key, v) = (own', None) \<and> well_folded own' \<and>
           (\<forall>k. stored own' k = stored own k @ (if k = key then [v] else []))"
proof (cases "map_of own key")
  case None
  have "fold_entry (own, None) (key, v) = (AList.update key v own, None)"
    using None key by (simp add: get_property_own assign_own del: get_property.simps assign.simps)
  moreover have "well_folded (AList.update key v own)"
    using wf v by (intro well_folded_update) (cases v; simp add: isArray_def)+
  moreover have "\<forall>k. stored (AList.update key v own) k = stored own k @ (if k = key then [v] else [])"
  proof -
    have "stored own key = []" using None by (simp add: stored_def)
    then show ?thesis using scalar_case [OF v(2)] by (simp add: stored_update)
  qed
  ultimately show ?thesis by blast
next
  case (Some cur)
  with wf have cur: "cur \<noteq> JUndefined" using well_foldedD by blast
  show ?thesis
  proof (cases "isArray cur")
    case True
    then obtain xs where xs: "cur = JArr xs" by (cases cur) (auto simp: isArray_def)
    with Some wf have len: "2 \<le> length xs" using well_foldedD by fastforce
    have "fold_entry (own, None) (key, v) = (AList.update key (JArr (xs @ [v])) own, None)"
      using Some key xs
      by (simp add: get_property_own assign_own push_def isArray_def del: get_property.simps assign.simps)
    moreover have "well_folded (AList.update key (JArr (xs @ [v])) own)"
      using wf len by (intro well_folded_update) simp_all
    moreover have "\<forall>k. stored (AList.update key (JArr (xs @ [v])) own) k =
                      stored own k @ (if k = key then [v] else [])"
    proof -
      have "stored own key = xs" using Some xs by (simp add: stored_def)
      then show ?thesis by (simp add: stored_update)
    qed
    ultimately show ?thesis by blast
  next
    case False
    let ?own1 = "AList.update key (JArr [cur]) own"
    have g1: "get_property (?own1, None) key = JArr [cur]"
      using key by (simp add: get_property_own update_conv' del: get_property.simps)
    have "fold_entry (own, None) (key, v) = (AList.update key (JArr [cur, v]) ?own1, None)"
      using Some key cur False g1
      by (simp add: get_property_own assign_own push_def del: get_property.simps assign.simps)
    then have "fold_entry (own, None) (key, v) = (AList.update key (JArr [cur, v]) own, None)"
      by simp
    moreover have "well_folded (AList.update key (JArr [cur, v]) own)"
      using wf by (rule well_folded_update) simp_all
    moreover have "\<forall>k. stored (AList.update key (JArr [cur, v]) own) k =
                      stored own k @ (if k = key then [v] else [])"
      using stored_scalar [OF False Some] by (simp add: stored_update)
    ultimately show ?thesis by blast
  qed
qed

lemma foldl_fold_entry:
  assumes "\<forall>e \<in> set es. \<not> inherited (fst e) \<and> snd e \<noteq> JUndefined \<and> \<not> isArray (snd e)"
      and "well_folded own"
  shows "\<exists>own'. foldl fold_entry (own, None) es = (own', None) \<and> well_folded own' \<and>
           (\<forall>k. stored own' k = stored own k @ values_for k es)"
  using assms
proof (induction es arbitrary: own)
  case Nil
  then show ?case by (simp add: values_for_def)
next
  case (Cons e es)
  obtain key v where e: "e = (key, v)" by (cases e)
  with Cons.prems have kv: "\<not> inherited key" "v \<noteq> JUndefined" "\<not> isArray v" by auto
  from fold_entry_step [OF kv Cons.prems(2)] obtain own1 where
    step: "fold_entry (own, None) (key, v) = (own1, None)" and wf1: "well_folded own1"
    and st1: "\<forall>k. stored own1 k = stored own k @ (if k = key then [v] else [])"
    by blast
  from Cons.prems(1) have rest: "\<forall>e \<in> set es. \<not> inherited (fst e) \<and> snd e \<noteq> JUndefined \<and> \<not> isArray (snd e)"
    by simp
  from Cons.IH [OF rest wf1] obtain own' where
    fin: "foldl fold_entry (own1, None) es = (own', None)" and wf': "well_folded own'"
    and st': "\<forall>k. stored own' k = stored own1 k @ values_for k es"
    by blast
  have "foldl fold_entry (own, None) (e # es) = (own', None)"
    using e step fin by (simp del: fold_entry.simps)
  moreover have "\<forall>k. stored own' k = stored own k @ values_for k (e # es)"
    using st1 st' e by (simp add: values_for_def)
  ultimately show ?case using wf' by blast
qed

lemma stored_lookup:
  assumes "well_folded own"
  shows "map_of own key = (case stored own key of [] \<Rightarrow> None | [v] \<Rightarrow> Some v | vs \<Rightarrow> Some (JArr vs))"
proof (cases "map_of own key")
  case None
  then show ?thesis by (simp add: stored_def)
next
  case (Some v)
  show ?thesis
  proof (cases "isArray v")
    case True
    then obtain xs where xs: "v = JArr xs" by (cases v) (auto simp: isArray_def)
    with Some assms have "2 \<le> length xs" using well_foldedD by fastforce
    then obtain a b ys where "xs = a # b # ys" by (cases xs; cases "tl xs") auto
    with Some xs show ?thesis by (simp add: stored_def)
  next
    case False
    from stored_scalar [OF False Some] Some show ?thesis by simp
  qed
qed

lemma fold_entries_own_keys:
  assumes "\<forall>e \<in> set es. \<not> inherited (fst e) \<and> snd e \<noteq> JUndefined \<and> \<not> isArray (snd e)"
  shows "\<exists>own. fold_entries es = JObj own None \<and>
           (\<forall>key. map_of own key =
              (case values_for key es of [] \<Rightarrow> None | [v] \<Rightarrow> Some v | vs \<Rightarrow> Some (JArr vs)))"
proof -
  have "well_folded []" by (simp add: well_folded_def)
  from foldl_fold_entry [OF assms this] obtain own where
    f: "foldl fold_entry ([], None) es = (own, None)" and wf: "well_folded own"
    and st: "\<forall>k. stored own k = stored [] k @ values_for k es"
    by blast
  have "\<forall>k. stored own k = values_for k es" using st by (simp add: stored_def)
  with stored_lookup [OF wf] f show ?thesis by (simp add: fold_entries_def)
qed

lemma values_for_map:
  "values_for key (map (\<lambda>(k, v). (k, f v)) es) = map f (values_for key es)"
  by (induction es) (auto simp: values_for_def)

lemma searchParamsToObject_own_keys:
  assumes "\<forall>e \<in> set sp. \<not> inherited (fst e)"
  shows "\<exists>own. searchParamsToObject sp = JObj own None \<and>
           (\<forall>key. map_of own key =
              (case values_for key sp of [] \<Rightarrow> None | [v] \<Rightarrow> Some (JStr v)
               | vs \<Rightarrow> Some (JArr (map JStr vs))))"
proof -
  let ?es = "map (\<lambda>(k, v). (k, JStr v)) sp"
  have "\<forall>e \<in> set ?es. \<not> inherited (fst e) \<and> snd e \<noteq> JUndefined \<and> \<not> isArray (snd e)"
    using assms by (auto simp: isArray_def)
  from fold_entries_own_keys [OF this] obtain own where
    "fold_entries ?es = JObj own None"
    "\<forall>key. map_of own key =
       (case values_for key ?es of [] \<Rightarrow> None | [v] \<Rightarrow> Some v | vs \<Rightarrow> Some (JArr vs))"
    by blast
  then show ?thesis
    by (auto simp: searchParamsToObject_def values_for_map split: list.splits)
qed

lemma headersToObject_own_keys:
  assumes "\<forall>e \<in> set hs. \<not> inherited (fst e)"
  shows "\<exists>own. headersToObject hs = JObj own None \<and>
           (\<forall>key. map_of own key =
              (case values_for key hs of [] \<Rightarrow> None | [v] \<Rightarrow> Some (JStr v)
               | vs \<Rightarrow> Some (JArr (map JStr vs))))"
  using searchParamsToObject_own_keys [OF assms]
  by (simp add: searchParamsToObject_def headersToObject_def)

lemma formToObject_own_keys:
  assumes "\<forall>e \<in> set form. \<not> inherited (fst e)"
  shows "\<exists>own. formToObject form = JObj own None \<and>
           (\<forall>key. map_of own key =
              (case values_for key form of [] \<Rightarrow> None | [v] \<Rightarrow> Some (form_value_js v)
               | vs \<Rightarrow> Some (JArr (map form_value_js vs))))"
proof -
  let ?es = "map (\<lambda>(k, v). (k, form_value_js v)) form"
  have "\<forall>e \<in> set ?es. \<not> inherited (fst e) \<and> snd e \<noteq> JUndefined \<and> \<not> isArray (snd e)"
  proof
    fix e assume "e \<in> set ?es"
    then obtain k v where "e = (k, form_value_js v)" "(k, v) \<in> set form" by auto
    then show "\<not> inherited (fst e) \<and> snd e \<noteq> JUndefined \<and> \<not> isArray (snd e)"
      using assms by (cases v) (auto simp: isArray_def)
  qed
  from fold_entries_own_keys [OF this] obtain own where
    "fold_entries ?es = JObj own None"
    "\<forall>key. map_of own key =
       (case values_for key ?es of [] \<Rightarrow> None | [v] \<Rightarrow> Some v | vs \<Rightarrow> Some (JArr vs))"
    by blast
  then show ?thesis
    by (auto simp: formToObject_def values_for_map split: list.splits)
qed

text \<open>The example of the specification, where no key is inherited.\<close>

lemma fold_example:
  "searchParamsToObject [(''a'', ''1''), (''b'', ''2''), (''a'', ''3'')] =
     JObj [(''a'', JArr [JStr ''1'', JStr ''3'']), (''b'', JStr ''2'')] None"
  by (simp add: searchParamsToObject_def fold_entries_def object_prototype_get_def
      object_prototype_names_def isArray_def push_def)

text \<open>
  C5 fails at a key that the object literal inherits: the test \<^verbatim>\<open>data[key] !== undefined\<close>
  takes the inherited function for an earlier value of the key. A single pair with the
  key \<^verbatim>\<open>constructor\<close> folds to a two-element array that starts with
  \<^verbatim>\<open>Object.prototype.constructor\<close>, not to the scalar \<^verbatim>\<open>"1"\<close>.
\<close>

theorem fold_inherited_key:
  "searchParamsToObject [(''constructor'', ''1'')] =
     JObj [(''constructor'', JArr [JBuiltin ''Object.prototype.constructor'', JStr ''1''])] None
   \<and> formToObject [(''constructor'', FormString ''1'')] =
     JObj [(''constructor'', JArr [JBuiltin ''Object.prototype.constructor'', JStr ''1''])] None
   \<and> headersToObject [(''constructor'', ''1'')] =
     JObj [(''constructor'', JArr [JBuiltin ''Object.prototype.constructor'', JStr ''1''])] None"
  by (simp add: searchParamsToObject_def formToObject_def headersToObject_def fold_entries_def
      object_prototype_get_def object_prototype_names_def isArray_def push_def)

subsection \<open>Query sources\<close>

text \<open>
  C10: given a \<^verbatim>\<open>URLSearchParams\<close>, the three query parsers hand that object itself to the
  schema, not folded. Given a \<^verbatim>\<open>Request\<close>, they hand it the folded query pairs: where no
  key is inherited, a plain object in which a key met once holds its value and a key met
  more often holds the array of its values in order. For the same pairs the two inputs
  are different values and some schema tells them apart; for the query \<^verbatim>\<open>?name=a\<close> the
  schema \<^verbatim>\<open>zod.object({name: zod.string()})\<close> accepts the request and rejects the
  \<^verbatim>\<open>URLSearchParams\<close>.
\<close>

theorem query_direct_not_folded:
  "parseQuery cfg (QuerySearchParams sp) schema = parseOrThrow cfg schema (JSearchParams sp)
   \<and> parseQuerySafe (QuerySearchParams sp) schema = safeParseAsync schema (JSearchParams sp)
   \<and> parseQueryWithDefault (QuerySearchParams sp) schema d =
       orDefault (safeParseAsync schema (JSearchParams sp)) d
   \<and> parseQuery cfg (QueryRequest req) schema =
       parseOrThrow cfg schema (searchParamsToObject (searchParams req))
   \<and> parseQuerySafe (QueryRequest req) schema =
       safeParseAsync schema (searchParamsToObject (searchParams req))
   \<and> parseQueryWithDefault (QueryRequest req) schema d =
       orDefault (safeParseAsync schema (searchParamsToObject (searchParams req))) d
   \<and> ((\<forall>e \<in> set (searchParams req). \<not> inherited (fst e)) \<longrightarrow>
        (\<exists>own.
           (\<forall>key. map_of own key =
              (case values_for key (searchParams req) of
                 [] \<Rightarrow> None
               | [v] \<Rightarrow> Some (JStr v)
               | vs \<Rightarrow> Some (JArr (map JStr vs))))
           \<and> parseQuery cfg (QueryRequest req) schema = parseOrThrow cfg schema (JObj own None)
           \<and> parseQuerySafe (QueryRequest req) schema = safeParseAsync schema (JObj own None)
           \<and> parseQueryWithDefault (QueryRequest req) schema d =
               orDefault (safeParseAsync schema (JObj own None)) d))
   \<and> JSearchParams (searchParams req) \<noteq> searchParamsToObject (searchParams req)
   \<and> (\<exists>s. parseQuerySafe (QuerySearchParams (searchParams req)) s \<noteq>
            parseQuerySafe (QueryRequest req) s)
   \<and> parseQuerySafe (QueryRequest (bare_request\<lparr>searchParams := [(''name'', ''a'')]\<rparr>)) name_schema =
       Inr (Success (JObj [(''name'', JStr ''a'')] None))
   \<and> parseQuerySafe (QuerySearchParams [(''name'', ''a'')]) name_schema =
       Inr (Failure [''Expected object''])"
proof -
  obtain own proto where obj: "searchParamsToObject (searchParams req) = JObj own proto"
    unfolding searchParamsToObject_def using fold_entries_is_object by blast
  let ?s = "\<lambda>v. case v of JSearchParams ps \<Rightarrow> Invalid [] | _ \<Rightarrow> Valid JNull"
  have "parseQuerySafe (QuerySearchParams (searchParams req)) ?s \<noteq>
        parseQuerySafe (QueryRequest req) ?s"
    by (simp add: parseQuerySafe_def safeParseAsync_def obj)
  then have differ: "\<exists>s. parseQuerySafe (QuerySearchParams (searchParams req)) s \<noteq>
                 parseQuerySafe (QueryRequest req) s"
    by blast
  have direct: "parseQuery cfg (QuerySearchParams sp) schema = parseOrThrow cfg schema (JSearchParams sp)
     \<and> parseQuerySafe (QuerySearchParams sp) schema = safeParseAsync schema (JSearchParams sp)
     \<and> parseQueryWithDefault (QuerySearchParams sp) schema d =
         orDefault (safeParseAsync schema (JSearchParams sp)) d"
    by (simp add: parseQuery_def parseQuerySafe_def parseQueryWithDefault_def)
  have request: "parseQuery cfg (QueryRequest req) schema =
         parseOrThrow cfg schema (searchParamsToObject (searchParams req))
     \<and> parseQuerySafe (QueryRequest req) schema =
         safeParseAsync schema (searchParamsToObject (searchParams req))
     \<and> parseQueryWithDefault (QueryRequest req) schema d =
         orDefault (safeParseAsync schema (searchParamsToObject (searchParams req))) d"
    by (simp add: parseQuery_def parseQuerySafe_def parseQueryWithDefault_def)
  have folded: "(\<forall>e \<in> set (searchParams req). \<not> inherited (fst e)) \<longrightarrow>
        (\<exists>own.
           (\<forall>key. map_of own key =
              (case values_for key (searchParams req) of
                 [] \<Rightarrow> None
               | [v] \<Rightarrow> Some (JStr v)
               | vs \<Rightarrow> Some (JArr (map JStr vs))))
           \<and> parseQuery cfg (QueryRequest req) schema = parseOrThrow cfg schema (JObj own None)
           \<and> parseQuerySafe (QueryRequest req) schema = safeParseAsync schema (JObj own None)
           \<and> parseQueryWithDefault (QueryRequest req) schema d =
               orDefault (safeParseAsync schema (JObj own None)) d)"
  proof
    assume "\<forall>e \<in> set (searchParams req). \<not> inherited (fst e)"
    from searchParamsToObject_own_keys [OF this] obtain own' where
      o: "searchParamsToObject (searchParams req) = JObj own' None"
      and l: "\<forall>key. map_of own' key =
              (case values_for key (searchParams req) of
                 [] \<Rightarrow> None
               | [v] \<Rightarrow> Some (JStr v)
               | vs \<Rightarrow> Some (JArr (map JStr vs)))"
      by blast
    from request o l show "\<exists>own.
           (\<forall>key. map_of own key =
              (case values_for key (searchParams req) of
                 [] \<Rightarrow> None
               | [v] \<Rightarrow> Some (JStr v)
               | vs \<Rightarrow> Some (JArr (map JStr vs))))
           \<and> parseQuery cfg (QueryRequest req) schema = parseOrThrow cfg schema (JObj own None)
           \<and> parseQuerySafe (QueryRequest req) schema = safeParseAsync schema (JObj own None)
           \<and> parseQueryWithDefault (QueryRequest req) schema d =
               orDefault (safeParseAsync schema (JObj own None)) d"
      by auto
  qed
  have distinct: "JSearchParams (searchParams req) \<noteq> searchParamsToObject (searchParams req)"
    by (simp add: obj)
  have example: "parseQuerySafe (QueryRequest (bare_request\<lparr>searchParams := [(''name'', ''a'')]\<rparr>))
         name_schema = Inr (Success (JObj [(''name'', JStr ''a'')] None))
     \<and> parseQuerySafe (QuerySearchParams [(''name'', ''a'')]) name_schema =
         Inr (Failure [''Expected object''])"
    by (simp add: parseQuerySafe_def safeParseAsync_def name_schema_def searchParamsToObject_def
        fold_entries_def object_prototype_get_def object_prototype_names_def)
  from direct request folded distinct differ example show ?thesis by blast
qed

theorem query_direct_not_folded_witness:
  "\<not> inherited ''a'' \<and> \<not> inherited ''b''
   \<and> (\<exists>own. map_of own ''a'' = Some (JArr [JStr ''1'', JStr ''3''])
          \<and> map_of own ''b'' = Some (JStr ''2'')
          \<and> map_of own ''c'' = None
          \<and> parseQuerySafe
               (QueryRequest (bare_request\<lparr>searchParams := [(''a'', ''1''), (''b'', ''2''), (''a'', ''3'')]\<rparr>))
               zod_unknown = safeParseAsync zod_unknown (JObj own None))
   \<and> parseQuerySafe (QuerySearchParams [(''a'', ''1''), (''b'', ''2''), (''a'', ''3'')]) zod_unknown =
       Inr (Success (JSearchParams [(''a'', ''1''), (''b'', ''2''), (''a'', ''3'')]))"
proof -
  let ?sp = "[(''a'', ''1''), (''b'', ''2''), (''a'', ''3'')]"
  let ?req = "bare_request\<lparr>searchParams := ?sp\<rparr>"
  have keys: "\<forall>e \<in> set (searchParams ?req). \<not> inherited (fst e)"
    by (simp add: inherited_def object_prototype_names_def)
  from query_direct_not_folded [where req = ?req and schema = zod_unknown and sp = ?sp] keys
  obtain own where
    l: "\<forall>key. map_of own key =
          (case values_for key (searchParams ?req) of
             [] \<Rightarrow> None
           | [v] \<Rightarrow> Some (JStr v)
           | vs \<Rightarrow> Some (JArr (map JStr vs)))"
    and p: "parseQuerySafe (QueryRequest ?req) zod_unknown = safeParseAsync zod_unknown (JObj own None)"
    by blast
  have "map_of own ''a'' = Some (JArr [JStr ''1'', JStr ''3''])"
       "map_of own ''b'' = Some (JStr ''2'')" "map_of own ''c'' = None"
    using l by (simp_all add: values_for_def)
  moreover have "parseQuerySafe (QuerySearchParams ?sp) zod_unknown = Inr (Success (JSearchParams ?sp))"
    using query_direct_not_folded [where sp = ?sp and schema = zod_unknown]
    by (simp add: safeParseAsync_def zod_unknown_def)
  moreover have "\<not> inherited ''a'' \<and> \<not> inherited ''b''"
    by (simp add: inherited_def object_prototype_names_def)
  ultimately show ?thesis using p by auto
qed

end
